theory Spec2Isabelle
  imports Main "HOL-Library.Sublist"
begin

section \<open>The data model\<close>

text \<open>
  A review as the views receive it from the live query (\<open>type Review\<close> of
  \<open>page.tsx\<close>). The fields \<open>id\<close> and \<open>section\<close> are called \<open>rid\<close> and
  \<open>rsection\<close> here. The \<open>section\<close>
  of a stored review is a plain string at run time: \<open>review.section as SectionId\<close>
  is an unchecked cast.
\<close>

record review =
  rid :: string
  title :: string
  content :: string
  rsection :: string
  createdAt :: int

text \<open>\<open>Object.keys(SECTIONS)\<close>, in the insertion order of the literal.\<close>

definition SECTION_KEYS :: "string list" where
  "SECTION_KEYS = [''growing-instant'', ''planning-wedding'', ''best-shape'']"

subsection \<open>Strings\<close>

text \<open>
  Strings are sequences of code units below 256. \<open>String.prototype.trim\<close> removes
  the white space and line terminators of ECMAScript from both ends; in this range they
  are TAB, LF, VT, FF, CR, SPACE and NBSP. A string is falsy exactly when it is empty.
\<close>

definition is_whitespace :: "char \<Rightarrow> bool" where
  "is_whitespace c =
     (c \<in> set [CHR 0x09, CHR 0x0A, CHR 0x0B, CHR 0x0C, CHR 0x0D, CHR 0x20, CHR 0xA0])"

definition trim :: "string \<Rightarrow> string" where
  "trim s = rev (dropWhile is_whitespace (rev (dropWhile is_whitespace s)))"

subsection \<open>Writes to the store\<close>

text \<open>
  The object literal handed to \<open>update\<close>: each attribute is present or absent.
  \<open>db.tx.reviews[i].update(p)\<close> is \<open>Update i p\<close>, \<open>db.tx.reviews[i].delete()\<close>
  is \<open>Delete i\<close>. Every handler returns the list of transactions it hands to
  \<open>db.transact\<close>, in order.
\<close>

record patch =
  p_title :: "string option"
  p_content :: "string option"
  p_section :: "string option"
  p_createdAt :: "int option"

datatype tx = Update string patch | Delete string

text \<open>The two values a handler reads from outside: the result of \<open>id()\<close> and of \<open>Date.now()\<close>.\<close>

record env =
  fresh_id :: string
  now :: int

text \<open>
  Modelled from the spec: the external Entity Store's \<open>write(operations)\<close>, which is
  not code of this repository. An entity is a bag of attributes; an update merges the given
  attributes into the entity with that id (creating it when absent) and leaves every other
  attribute and every other entity alone; a delete removes the entity.
\<close>

definition merge_patch :: "patch \<Rightarrow> patch \<Rightarrow> patch" where
  "merge_patch p e =
     \<lparr> p_title = (case p_title p of None \<Rightarrow> p_title e | Some v \<Rightarrow> Some v),
       p_content = (case p_content p of None \<Rightarrow> p_content e | Some v \<Rightarrow> Some v),
       p_section = (case p_section p of None \<Rightarrow> p_section e | Some v \<Rightarrow> Some v),
       p_createdAt = (case p_createdAt p of None \<Rightarrow> p_createdAt e | Some v \<Rightarrow> Some v) \<rparr>"

definition no_attributes :: patch where
  "no_attributes = \<lparr> p_title = None, p_content = None, p_section = None, p_createdAt = None \<rparr>"

fun apply_tx :: "tx \<Rightarrow> (string \<rightharpoonup> patch) \<Rightarrow> (string \<rightharpoonup> patch)" where
  "apply_tx (Update i p) store =
     store(i \<mapsto> merge_patch p (case store i of None \<Rightarrow> no_attributes | Some e \<Rightarrow> e))"
| "apply_tx (Delete i) store = store(i := None)"

fun transact :: "tx list \<Rightarrow> (string \<rightharpoonup> patch) \<Rightarrow> (string \<rightharpoonup> patch)" where
  "transact [] store = store"
| "transact (t # ts) store = transact ts (apply_tx t store)"

section \<open>Review Projector\<close>

subsection \<open>Grouping (the single-column layout, \<open>ReadView\<close>)\<close>

text \<open>
  The accumulator of the \<open>reduce\<close> is the object literal \<open>{}\<close>: its own properties
  are the map, and a read of a key it does not own falls through to \<open>Object.prototype\<close>.
  The values such a read can give: an array of reviews, a function (with its \<open>length\<close>),
  the prototype object itself (for \<open>__proto__\<close>), or \<open>undefined\<close>.
\<close>

datatype js_value = Arr "review list" | Fn nat | ProtoObj | Undefined

datatype js_error = TypeError

definition Object_prototype :: "string \<rightharpoonup> js_value" where
  "Object_prototype = map_of
     [(''constructor'', Fn 1),
      (''hasOwnProperty'', Fn 1),
      (''isPrototypeOf'', Fn 1),
      (''propertyIsEnumerable'', Fn 1),
      (''toLocaleString'', Fn 0),
      (''toString'', Fn 0),
      (''valueOf'', Fn 0),
      (''__defineGetter__'', Fn 2),
      (''__defineSetter__'', Fn 2),
      (''__lookupGetter__'', Fn 1),
      (''__lookupSetter__'', Fn 1),
      (''__proto__'', ProtoObj)]"

definition js_get :: "(string \<rightharpoonup> review list) \<Rightarrow> string \<Rightarrow> js_value" where
  "js_get obj k =
     (case obj k of
        Some xs \<Rightarrow> Arr xs
      | None \<Rightarrow> (case Object_prototype k of Some v \<Rightarrow> v | None \<Rightarrow> Undefined))"

fun truthy :: "js_value \<Rightarrow> bool" where
  "truthy (Arr xs) = True"
| "truthy (Fn n) = True"
| "truthy ProtoObj = True"
| "truthy Undefined = False"

text \<open>
  The callback of the \<open>reduce\<close>:
  \<^verbatim>\<open>if (!acc[section]) acc[section] = []; acc[section].push(review); return acc;\<close>
  \<open>push\<close> exists on arrays only; calling it on anything else throws.
\<close>

definition group_step ::
  "(string \<rightharpoonup> review list) \<Rightarrow> review \<Rightarrow> js_error + (string \<rightharpoonup> review list)" where
  "group_step acc r =
     (let s = rsection r;
          acc1 = (if \<not> truthy (js_get acc s) then acc(s \<mapsto> []) else acc)
      in case js_get acc1 s of
           Arr xs \<Rightarrow> Inr (acc1(s \<mapsto> xs @ [r]))
         | Fn n \<Rightarrow> Inl TypeError
         | ProtoObj \<Rightarrow> Inl TypeError
         | Undefined \<Rightarrow> Inl TypeError)"

fun reduce :: "('a \<Rightarrow> 'b \<Rightarrow> js_error + 'a) \<Rightarrow> 'b list \<Rightarrow> 'a \<Rightarrow> js_error + 'a" where
  "reduce f [] acc = Inr acc"
| "reduce f (x # xs) acc =
     (case f acc x of Inl e \<Rightarrow> Inl e | Inr acc' \<Rightarrow> reduce f xs acc')"

definition groupedBySection :: "review list \<Rightarrow> js_error + (string \<rightharpoonup> review list)" where
  "groupedBySection reviews = reduce group_step reviews Map.empty"

text \<open>
  What \<open>ReadView\<close> renders: the placeholder for an empty list, or one group per key of
  \<open>SECTIONS\<close>, in that order, skipping a key when \<open>!sectionReviews?.length\<close>.
  A group is its section key and the reviews listed under it.
\<close>

datatype read_view = NoReviewsYet | Groups "(string \<times> review list) list"

definition render_section ::
  "(string \<rightharpoonup> review list) \<Rightarrow> string \<Rightarrow> js_error + (string \<times> review list) option" where
  "render_section g sectionId =
     (case js_get g sectionId of
        Arr xs \<Rightarrow> if length xs = 0 then Inr None else Inr (Some (sectionId, xs))
      | Undefined \<Rightarrow> Inr None
      | ProtoObj \<Rightarrow> Inr None
      | Fn n \<Rightarrow> if n = 0 then Inr None else Inl TypeError)"

fun render_sections ::
  "(string \<rightharpoonup> review list) \<Rightarrow> string list \<Rightarrow> js_error + (string \<times> review list) list" where
  "render_sections g [] = Inr []"
| "render_sections g (k # ks) =
     (case render_section g k of
        Inl e \<Rightarrow> Inl e
      | Inr x \<Rightarrow>
          (case render_sections g ks of
             Inl e \<Rightarrow> Inl e
           | Inr rest \<Rightarrow> Inr ((case x of None \<Rightarrow> [] | Some grp \<Rightarrow> [grp]) @ rest)))"

definition ReadView :: "review list \<Rightarrow> js_error + read_view" where
  "ReadView reviews =
     (if length reviews = 0 then Inr NoReviewsYet
      else case groupedBySection reviews of
             Inl e \<Rightarrow> Inl e
           | Inr g \<Rightarrow>
               (case render_sections g SECTION_KEYS of
                  Inl e \<Rightarrow> Inl e
                | Inr gs \<Rightarrow> Inr (Groups gs)))"

subsection \<open>Filtering (the dashboard layout, \<open>App\<close>)\<close>

text \<open>
  \<open>Array.prototype.filter\<close>: walk the array from index 0, append to a fresh array each
  element the callback accepts.
\<close>

fun js_filter_loop :: "('a \<Rightarrow> bool) \<Rightarrow> 'a list \<Rightarrow> 'a list \<Rightarrow> 'a list" where
  "js_filter_loop f [] out = out"
| "js_filter_loop f (x # xs) out = js_filter_loop f xs (if f x then out @ [x] else out)"

definition js_filter :: "('a \<Rightarrow> bool) \<Rightarrow> 'a list \<Rightarrow> 'a list" where
  "js_filter f xs = js_filter_loop f xs []"

definition sectionReviews :: "review list \<Rightarrow> string \<Rightarrow> review list" where
  "sectionReviews reviews activeSection = js_filter (\<lambda>r. rsection r = activeSection) reviews"

section \<open>Edit-State Controller\<close>

subsection \<open>The single-column layout: \<open>App\<close>, \<open>ReadView\<close>, \<open>ReviewEntry\<close>\<close>

datatype view_mode = ReadMode | WriteMode

text \<open>The two \<open>useState\<close> cells of \<open>App\<close>. \<open>editingId = None\<close> is Idle,
  \<open>editingId = Some i\<close> is Editing(i).\<close>

record app_state =
  view :: view_mode
  editingId :: "string option"

text \<open>
  The two \<open>useState\<close> cells of one \<open>ReviewEntry\<close> (and of one \<open>ReviewItem\<close>, which
  declares the same two). The initial value of a cell is used when the component instance
  is created; after that the cell changes through its setter only.
\<close>

record entry_state =
  editTitle :: string
  editContent :: string

definition ReviewEntry_mount :: "review \<Rightarrow> entry_state" where
  "ReviewEntry_mount r = \<lparr> editTitle = title r, editContent = content r \<rparr>"

text \<open>The props \<open>ReadView\<close> hands to the entry of review \<open>r\<close>.\<close>

definition isEditing :: "app_state \<Rightarrow> review \<Rightarrow> bool" where
  "isEditing a r = (editingId a = Some (rid r))"

definition onEdit :: "review \<Rightarrow> app_state \<Rightarrow> app_state" where
  "onEdit r a = a\<lparr> editingId := Some (rid r) \<rparr>"

definition onClose :: "app_state \<Rightarrow> app_state" where
  "onClose a = a\<lparr> editingId := None \<rparr>"

definition ReviewEntry_handleSave ::
  "review \<Rightarrow> app_state \<times> entry_state \<Rightarrow> tx list \<times> app_state \<times> entry_state" where
  "ReviewEntry_handleSave r st =
     (case st of (a, e) \<Rightarrow>
        if trim (editTitle e) = [] \<or> trim (editContent e) = [] then ([], a, e)
        else ([Update (rid r)
                 \<lparr> p_title = Some (trim (editTitle e)),
                   p_content = Some (trim (editContent e)),
                   p_section = None,
                   p_createdAt = None \<rparr>],
              onClose a, e))"

definition ReviewEntry_handleDelete ::
  "review \<Rightarrow> app_state \<times> entry_state \<Rightarrow> tx list \<times> app_state \<times> entry_state" where
  "ReviewEntry_handleDelete r st = (case st of (a, e) \<Rightarrow> ([Delete (rid r)], onClose a, e))"

text \<open>
  The user's actions on one entry. An action whose control is not in the branch that is
  rendered cannot happen: \<open>None\<close>. \<open>ClickEdit\<close> is the click on the read-only article
  (in the dashboard, on the Edit button).
\<close>

datatype entry_event =
  ClickEdit | ChangeTitle string | ChangeContent string | ClickSave | ClickCancel | ClickDelete

definition ReviewEntry_event ::
  "review \<Rightarrow> entry_event \<Rightarrow> app_state \<times> entry_state
     \<Rightarrow> (tx list \<times> app_state \<times> entry_state) option" where
  "ReviewEntry_event r ev st =
     (case st of (a, e) \<Rightarrow>
        if isEditing a r then
          (case ev of
             ChangeTitle v \<Rightarrow> Some ([], a, e\<lparr> editTitle := v \<rparr>)
           | ChangeContent v \<Rightarrow> Some ([], a, e\<lparr> editContent := v \<rparr>)
           | ClickSave \<Rightarrow> Some (ReviewEntry_handleSave r (a, e))
           | ClickCancel \<Rightarrow> Some ([], onClose a, e)
           | ClickDelete \<Rightarrow> Some (ReviewEntry_handleDelete r (a, e))
           | ClickEdit \<Rightarrow> None)
        else
          (case ev of
             ClickEdit \<Rightarrow> Some ([], onEdit r a, e)
           | _ \<Rightarrow> None))"

text \<open>What one entry shows: the two inputs of the edit form, or the review's own text.\<close>

datatype entry_view = EditForm string string | ReadOnly string string

definition ReviewEntry_view :: "review \<Rightarrow> app_state \<Rightarrow> entry_state \<Rightarrow> entry_view" where
  "ReviewEntry_view r a e =
     (if isEditing a r then EditForm (editTitle e) (editContent e)
      else ReadOnly (title r) (content r))"

text \<open>A sequence of actions on one mounted entry, collecting the writes.\<close>

fun ReviewEntry_run ::
  "review \<Rightarrow> entry_event list \<Rightarrow> tx list \<times> app_state \<times> entry_state
     \<Rightarrow> (tx list \<times> app_state \<times> entry_state) option" where
  "ReviewEntry_run r [] st = Some st"
| "ReviewEntry_run r (ev # evs) st =
     (case st of (ws, a, e) \<Rightarrow>
        (case ReviewEntry_event r ev (a, e) of
           None \<Rightarrow> None
         | Some (ws', a', e') \<Rightarrow> ReviewEntry_run r evs (ws @ ws', a', e')))"

subsection \<open>The dashboard layout: \<open>App\<close>, \<open>ReviewItem\<close>\<close>

record dash_state =
  activeSection :: string
  editingReview :: "review option"

text \<open>\<open>editingReview?.id === review.id\<close>\<close>

definition isEditingItem :: "dash_state \<Rightarrow> review \<Rightarrow> bool" where
  "isEditingItem d r = (case editingReview d of None \<Rightarrow> False | Some er \<Rightarrow> rid er = rid r)"

definition onEditItem :: "review \<Rightarrow> dash_state \<Rightarrow> dash_state" where
  "onEditItem r d = d\<lparr> editingReview := Some r \<rparr>"

definition onCancelEdit :: "dash_state \<Rightarrow> dash_state" where
  "onCancelEdit d = d\<lparr> editingReview := None \<rparr>"

definition onSaveEdit :: "dash_state \<Rightarrow> dash_state" where
  "onSaveEdit d = d\<lparr> editingReview := None \<rparr>"

definition ReviewItem_handleSave ::
  "review \<Rightarrow> dash_state \<times> entry_state \<Rightarrow> tx list \<times> dash_state \<times> entry_state" where
  "ReviewItem_handleSave r st =
     (case st of (d, e) \<Rightarrow>
        if trim (editTitle e) = [] \<or> trim (editContent e) = [] then ([], d, e)
        else ([Update (rid r)
                 \<lparr> p_title = Some (trim (editTitle e)),
                   p_content = Some (trim (editContent e)),
                   p_section = None,
                   p_createdAt = None \<rparr>],
              onSaveEdit d, e))"

definition ReviewItem_handleDelete ::
  "review \<Rightarrow> dash_state \<times> entry_state \<Rightarrow> tx list \<times> dash_state \<times> entry_state" where
  "ReviewItem_handleDelete r st = (case st of (d, e) \<Rightarrow> ([Delete (rid r)], d, e))"

text \<open>The edit form of an item has Save and Cancel; Edit and Delete are on the read-only
  branch.\<close>

definition ReviewItem_event ::
  "review \<Rightarrow> entry_event \<Rightarrow> dash_state \<times> entry_state
     \<Rightarrow> (tx list \<times> dash_state \<times> entry_state) option" where
  "ReviewItem_event r ev st =
     (case st of (d, e) \<Rightarrow>
        if isEditingItem d r then
          (case ev of
             ChangeTitle v \<Rightarrow> Some ([], d, e\<lparr> editTitle := v \<rparr>)
           | ChangeContent v \<Rightarrow> Some ([], d, e\<lparr> editContent := v \<rparr>)
           | ClickSave \<Rightarrow> Some (ReviewItem_handleSave r (d, e))
           | ClickCancel \<Rightarrow> Some ([], onCancelEdit d, e)
           | ClickDelete \<Rightarrow> None
           | ClickEdit \<Rightarrow> None)
        else
          (case ev of
             ClickEdit \<Rightarrow> Some ([], onEditItem r d, e)
           | ClickDelete \<Rightarrow> Some (ReviewItem_handleDelete r (d, e))
           | _ \<Rightarrow> None))"

definition ReviewItem_view :: "review \<Rightarrow> dash_state \<Rightarrow> entry_state \<Rightarrow> entry_view" where
  "ReviewItem_view r d e =
     (if isEditingItem d r then EditForm (editTitle e) (editContent e)
      else ReadOnly (title r) (content r))"

section \<open>Entry Composer\<close>

subsection \<open>The single-column layout: \<open>WriteView\<close>\<close>

text \<open>\<open>SectionStep\<close> is the stage SelectingSection, \<open>ContentStep\<close> the stage
  EnteringDetails.\<close>

datatype step = SectionStep | ContentStep

record write_state =
  step :: step
  selectedSection :: "string option"
  w_title :: string
  w_content :: string

definition WriteView_mount :: write_state where
  "WriteView_mount = \<lparr> step = SectionStep, selectedSection = None, w_title = [], w_content = [] \<rparr>"

text \<open>The click on a section button: \<open>setSelectedSection(sectionId); setStep("content")\<close>.\<close>

definition WriteView_chooseSection :: "string \<Rightarrow> write_state \<Rightarrow> write_state" where
  "WriteView_chooseSection sectionId w = w\<lparr> selectedSection := Some sectionId, step := ContentStep \<rparr>"

text \<open>The Back button: \<open>setStep("section")\<close>.\<close>

definition WriteView_back :: "write_state \<Rightarrow> write_state" where
  "WriteView_back w = w\<lparr> step := SectionStep \<rparr>"

definition setTitle :: "string \<Rightarrow> write_state \<Rightarrow> write_state" where
  "setTitle v w = w\<lparr> w_title := v \<rparr>"

definition setContent :: "string \<Rightarrow> write_state \<Rightarrow> write_state" where
  "setContent v w = w\<lparr> w_content := v \<rparr>"

text \<open>\<open>!selectedSection\<close>: \<open>null\<close> and the empty string are falsy.\<close>

definition no_section :: "string option \<Rightarrow> bool" where
  "no_section sel = (case sel of None \<Rightarrow> True | Some s \<Rightarrow> s = [])"

text \<open>\<open>onComplete\<close> is \<open>() => setView("read")\<close>.\<close>

definition onComplete :: "app_state \<Rightarrow> app_state" where
  "onComplete a = a\<lparr> view := ReadMode \<rparr>"

text \<open>
  \<open>handleSubmit\<close>: the guard, one \<open>db.transact\<close>, the four setters, then
  \<open>onComplete\<close>. The Save button is disabled while title or content trims to the empty
  string; the handler makes the check itself as well.
\<close>

definition WriteView_handleSubmit ::
  "env \<Rightarrow> app_state \<times> write_state \<Rightarrow> tx list \<times> app_state \<times> write_state" where
  "WriteView_handleSubmit env st =
     (case st of (a, w) \<Rightarrow>
        if no_section (selectedSection w) \<or> trim (w_title w) = [] \<or> trim (w_content w) = []
        then ([], a, w)
        else ([Update (fresh_id env)
                 \<lparr> p_title = Some (trim (w_title w)),
                   p_content = Some (trim (w_content w)),
                   p_section = selectedSection w,
                   p_createdAt = Some (now env) \<rparr>],
              onComplete a,
              w\<lparr> w_title := [], w_content := [], selectedSection := None, step := SectionStep \<rparr>))"

subsection \<open>The dashboard layout: \<open>AddReviewCard\<close>\<close>

text \<open>The card has two cells only; its section is a prop, the active tab of \<open>App\<close>.\<close>

record add_state =
  a_title :: string
  a_content :: string

definition AddReviewCard_handleSubmit ::
  "env \<Rightarrow> string \<Rightarrow> add_state \<Rightarrow> tx list \<times> add_state" where
  "AddReviewCard_handleSubmit env sec s =
     (if trim (a_title s) = [] \<or> trim (a_content s) = [] then ([], s)
      else ([Update (fresh_id env)
               \<lparr> p_title = Some (trim (a_title s)),
                 p_content = Some (trim (a_content s)),
                 p_section = Some sec,
                 p_createdAt = Some (now env) \<rparr>],
            s\<lparr> a_title := [], a_content := [] \<rparr>))"

section \<open>Theorems\<close>

subsection \<open>Helper lemmas\<close>

lemma dropWhile_all_iff: "(\<forall>x \<in> set (dropWhile P xs). P x) \<longleftrightarrow> (\<forall>x \<in> set xs. P x)"
proof
  assume all: "\<forall>x \<in> set (dropWhile P xs). P x"
  have "dropWhile P xs = []"
  proof (rule ccontr)
    assume ne: "dropWhile P xs \<noteq> []"
    then have "\<not> P (hd (dropWhile P xs))" by (rule hd_dropWhile)
    moreover have "hd (dropWhile P xs) \<in> set (dropWhile P xs)" using ne by simp
    ultimately show False using all by blast
  qed
  then show "\<forall>x \<in> set xs. P x" by simp
next
  assume "\<forall>x \<in> set xs. P x"
  then show "\<forall>x \<in> set (dropWhile P xs). P x"
    by (blast dest: set_dropWhileD)
qed

lemma trim_empty_iff: "trim s = [] \<longleftrightarrow> (\<forall>c \<in> set s. is_whitespace c)"
  by (simp add: trim_def dropWhile_all_iff)

lemma group_step_plain:
  assumes "Object_prototype (rsection r) = None"
  shows "group_step acc r =
           Inr (acc(rsection r \<mapsto> (case acc (rsection r) of None \<Rightarrow> [] | Some xs \<Rightarrow> xs) @ [r]))"
  using assms by (cases "acc (rsection r)") (simp_all add: group_step_def js_get_def)

lemma reduce_group_step:
  assumes "\<forall>r \<in> set rs. Object_prototype (rsection r) = None"
  shows "reduce group_step rs acc =
           Inr (\<lambda>k. if filter (\<lambda>r. rsection r = k) rs = [] then acc k
                     else Some ((case acc k of None \<Rightarrow> [] | Some xs \<Rightarrow> xs)
                                  @ filter (\<lambda>r. rsection r = k) rs))"
  using assms
proof (induction rs arbitrary: acc)
  case Nil
  then show ?case by simp
next
  case (Cons r rs)
  have step: "group_step acc r =
      Inr (acc(rsection r \<mapsto> (case acc (rsection r) of None \<Rightarrow> [] | Some xs \<Rightarrow> xs) @ [r]))"
    using Cons.prems by (simp add: group_step_plain)
  have rest: "\<forall>r \<in> set rs. Object_prototype (rsection r) = None"
    using Cons.prems by simp
  show ?case
    unfolding reduce.simps step sum.case Cons.IH [OF rest]
    by (auto simp: fun_eq_iff)
qed

lemma groupedBySection_plain:
  assumes "\<forall>r \<in> set rs. Object_prototype (rsection r) = None"
  shows "groupedBySection rs =
           Inr (\<lambda>k. if filter (\<lambda>r. rsection r = k) rs = [] then None
                     else Some (filter (\<lambda>r. rsection r = k) rs))"
  unfolding groupedBySection_def reduce_group_step [OF assms] by (auto simp: fun_eq_iff)

lemma section_keys_plain: "\<forall>k \<in> set SECTION_KEYS. Object_prototype k = None"
  by (simp add: SECTION_KEYS_def Object_prototype_def)

lemma render_sections_plain:
  assumes "\<forall>k \<in> set ks. Object_prototype k = None"
  shows "render_sections g ks =
           Inr (map (\<lambda>k. (k, the (g k))) (filter (\<lambda>k. g k \<noteq> None \<and> g k \<noteq> Some []) ks))"
  using assms
proof (induction ks)
  case Nil
  then show ?case by simp
next
  case (Cons k ks)
  have one: "render_section g k =
      Inr (if g k \<noteq> None \<and> g k \<noteq> Some [] then Some (k, the (g k)) else None)"
    using Cons.prems by (cases "g k") (simp_all add: render_section_def js_get_def)
  have rest: "\<forall>k \<in> set ks. Object_prototype k = None"
    using Cons.prems by simp
  show ?case
    unfolding render_sections.simps one sum.case Cons.IH [OF rest] by simp
qed

lemma ReadView_plain:
  assumes "\<forall>r \<in> set rs. Object_prototype (rsection r) = None"
  shows "ReadView rs =
           Inr (if rs = [] then NoReviewsYet
                else Groups (map (\<lambda>k. (k, filter (\<lambda>r. rsection r = k) rs))
                               (filter (\<lambda>k. filter (\<lambda>r. rsection r = k) rs \<noteq> []) SECTION_KEYS)))"
proof -
  have keys: "\<forall>k \<in> set SECTION_KEYS. Object_prototype k = None"
    by (rule section_keys_plain)
  show ?thesis
    unfolding ReadView_def groupedBySection_plain [OF assms] sum.case
      render_sections_plain [OF keys]
    by (auto intro!: map_cong filter_cong)
qed

subsection \<open>Review Projector\<close>

text \<open>
  C1. Grouping mode. For every list of reviews of which no section is the name of a
  property of \<open>Object.prototype\<close> (the three section ids of the data model are not),
  the \<open>reduce\<close> returns a mapping in which every review is listed under exactly one key,
  its own section; no key holds an empty list, and a key is absent exactly when no review
  has that section; the list under a key is the input filtered to that section, so the
  reviews of a group are in their input order; and \<open>ReadView\<close> renders no empty
  group, each rendered group being the list the mapping holds.
\<close>

theorem C1_grouping_mode:
  assumes "\<forall>r \<in> set reviews. Object_prototype (rsection r) = None"
  shows "\<exists>g gs. groupedBySection reviews = Inr g
           \<and> (\<forall>r \<in> set reviews. \<forall>k. (\<exists>xs. g k = Some xs \<and> r \<in> set xs) \<longleftrightarrow> k = rsection r)
           \<and> (\<forall>k. g k \<noteq> Some [])
           \<and> (\<forall>k xs. g k = Some xs \<longrightarrow> xs = filter (\<lambda>r. rsection r = k) reviews)
           \<and> (\<forall>k. g k = None \<longleftrightarrow> filter (\<lambda>r. rsection r = k) reviews = [])
           \<and> ReadView reviews = Inr (if reviews = [] then NoReviewsYet else Groups gs)
           \<and> (\<forall>(k, xs) \<in> set gs. xs \<noteq> [] \<and> g k = Some xs)"
proof -
  let ?g = "\<lambda>k. if filter (\<lambda>r. rsection r = k) reviews = [] then None
                 else Some (filter (\<lambda>r. rsection r = k) reviews)"
  let ?gs = "map (\<lambda>k. (k, filter (\<lambda>r. rsection r = k) reviews))
               (filter (\<lambda>k. filter (\<lambda>r. rsection r = k) reviews \<noteq> []) SECTION_KEYS)"
  have g: "groupedBySection reviews = Inr ?g"
    by (rule groupedBySection_plain [OF assms])
  have v: "ReadView reviews = Inr (if reviews = [] then NoReviewsYet else Groups ?gs)"
    by (rule ReadView_plain [OF assms])
  have once: "\<forall>r \<in> set reviews. \<forall>k. (\<exists>xs. ?g k = Some xs \<and> r \<in> set xs) \<longleftrightarrow> k = rsection r"
    by (auto simp: filter_empty_conv)
  have nonempty: "\<forall>k. ?g k \<noteq> Some []"
    by simp
  have order: "\<forall>k xs. ?g k = Some xs \<longrightarrow> xs = filter (\<lambda>r. rsection r = k) reviews"
    by (simp split: if_splits)
  have absent: "\<forall>k. ?g k = None \<longleftrightarrow> filter (\<lambda>r. rsection r = k) reviews = []"
    by simp
  have shown: "\<forall>(k, xs) \<in> set ?gs. xs \<noteq> [] \<and> ?g k = Some xs"
    by auto
  from g v once nonempty order absent shown show ?thesis by blast
qed

theorem C1_grouping_mode_witness:
  "Object_prototype ''best-shape'' = None \<and> Object_prototype ''growing-instant'' = None
   \<and> (\<exists>g. groupedBySection [\<lparr>rid = ''a'', title = ''T1'', content = ''C1'', rsection = ''best-shape'', createdAt = 300\<rparr>,
              \<lparr>rid = ''b'', title = ''T2'', content = ''C2'', rsection = ''growing-instant'', createdAt = 200\<rparr>,
              \<lparr>rid = ''c'', title = ''T3'', content = ''C3'', rsection = ''best-shape'', createdAt = 100\<rparr>] = Inr g
          \<and> g ''best-shape'' = Some [\<lparr>rid = ''a'', title = ''T1'', content = ''C1'', rsection = ''best-shape'', createdAt = 300\<rparr>,
                                     \<lparr>rid = ''c'', title = ''T3'', content = ''C3'', rsection = ''best-shape'', createdAt = 100\<rparr>]
          \<and> g ''growing-instant'' = Some [\<lparr>rid = ''b'', title = ''T2'', content = ''C2'', rsection = ''growing-instant'', createdAt = 200\<rparr>]
          \<and> g ''planning-wedding'' = None)"
proof -
  define rs where "rs = [\<lparr>rid = ''a'', title = ''T1'', content = ''C1'', rsection = ''best-shape'', createdAt = 300\<rparr>,
              \<lparr>rid = ''b'', title = ''T2'', content = ''C2'', rsection = ''growing-instant'', createdAt = 200\<rparr>,
              \<lparr>rid = ''c'', title = ''T3'', content = ''C3'', rsection = ''best-shape'', createdAt = 100\<rparr>]"
  have p1: "Object_prototype ''best-shape'' = None"
    and p2: "Object_prototype ''growing-instant'' = None"
    by (simp_all add: Object_prototype_def)
  have h: "\<forall>r \<in> set rs. Object_prototype (rsection r) = None"
    using p1 p2 by (simp add: rs_def)
  have f1: "filter (\<lambda>r. rsection r = ''best-shape'') rs = [\<lparr>rid = ''a'', title = ''T1'', content = ''C1'', rsection = ''best-shape'', createdAt = 300\<rparr>,
                                     \<lparr>rid = ''c'', title = ''T3'', content = ''C3'', rsection = ''best-shape'', createdAt = 100\<rparr>]"
    and f2: "filter (\<lambda>r. rsection r = ''growing-instant'') rs = [\<lparr>rid = ''b'', title = ''T2'', content = ''C2'', rsection = ''growing-instant'', createdAt = 200\<rparr>]"
    and f3: "filter (\<lambda>r. rsection r = ''planning-wedding'') rs = []"
    by (simp_all add: rs_def)
  from C1_grouping_mode [OF h] obtain g where
    g: "groupedBySection rs = Inr g"
    and ord: "\<forall>k xs. g k = Some xs \<longrightarrow> xs = filter (\<lambda>r. rsection r = k) rs"
    and absent: "\<forall>k. g k = None \<longleftrightarrow> filter (\<lambda>r. rsection r = k) rs = []"
    by (elim exE conjE) (rule that)
  have wed: "g ''planning-wedding'' = None"
    using absent f3 by simp
  have "g ''best-shape'' \<noteq> None"
    using absent f1 by simp
  then obtain xs where xs: "g ''best-shape'' = Some xs" by (cases "g ''best-shape''") simp_all
  have "xs = filter (\<lambda>r. rsection r = ''best-shape'') rs"
    using ord xs by (elim allE impE) assumption+
  with xs f1 have best: "g ''best-shape'' = Some [\<lparr>rid = ''a'', title = ''T1'', content = ''C1'', rsection = ''best-shape'', createdAt = 300\<rparr>,
                                     \<lparr>rid = ''c'', title = ''T3'', content = ''C3'', rsection = ''best-shape'', createdAt = 100\<rparr>]"
    by simp
  have "g ''growing-instant'' \<noteq> None"
    using absent f2 by simp
  then obtain ys where ys: "g ''growing-instant'' = Some ys" by (cases "g ''growing-instant''") simp_all
  have "ys = filter (\<lambda>r. rsection r = ''growing-instant'') rs"
    using ord ys by (elim allE impE) assumption+
  with ys f2 have grow: "g ''growing-instant'' = Some [\<lparr>rid = ''b'', title = ''T2'', content = ''C2'', rsection = ''growing-instant'', createdAt = 200\<rparr>]"
    by simp
  have "\<exists>g. groupedBySection rs = Inr g
          \<and> g ''best-shape'' = Some [\<lparr>rid = ''a'', title = ''T1'', content = ''C1'', rsection = ''best-shape'', createdAt = 300\<rparr>,
                                     \<lparr>rid = ''c'', title = ''T3'', content = ''C3'', rsection = ''best-shape'', createdAt = 100\<rparr>]
          \<and> g ''growing-instant'' = Some [\<lparr>rid = ''b'', title = ''T2'', content = ''C2'', rsection = ''growing-instant'', createdAt = 200\<rparr>]
          \<and> g ''planning-wedding'' = None"
    using g best grow wed by (intro exI [of _ g] conjI)
  then show ?thesis
    using p1 p2 unfolding rs_def by (intro conjI)
qed

text \<open>
  C10 as stated fails: a review whose section is \<open>constructor\<close>, which is not one of
  the three section ids, is not silently invisible. The accumulator \<open>{}\<close> inherits a
  truthy \<open>constructor\<close> that has no \<open>push\<close>, and the grouping throws.
\<close>

theorem C10_unlisted_section_counterexample:
  "rsection \<lparr>rid = ''a'', title = ''T'', content = ''C'', rsection = ''constructor'', createdAt = 100\<rparr>
     \<notin> set SECTION_KEYS
   \<and> groupedBySection
       [\<lparr>rid = ''a'', title = ''T'', content = ''C'', rsection = ''constructor'', createdAt = 100\<rparr>]
     = Inl TypeError
   \<and> ReadView
       [\<lparr>rid = ''a'', title = ''T'', content = ''C'', rsection = ''constructor'', createdAt = 100\<rparr>]
     = Inl TypeError"
  by (simp add: SECTION_KEYS_def ReadView_def groupedBySection_def group_step_def js_get_def
      Object_prototype_def)

text \<open>
  C10, amended. When no review of the input list has a section that is the name of a
  property of \<open>Object.prototype\<close> (one such review anywhere in the list makes the
  whole \<open>reduce\<close> throw), grouping and rendering succeed; the rendered groups are the
  keys of \<open>SECTIONS\<close> that some review has, in the fixed order growing-instant,
  planning-wedding, best-shape, whatever the input order; and a review whose section is not
  one of the three ids is listed under its own key in the mapping and occurs in no rendered
  group.
\<close>

theorem C10_unlisted_section:
  assumes "\<forall>r \<in> set reviews. Object_prototype (rsection r) = None"
  shows "\<exists>g gs. groupedBySection reviews = Inr g
           \<and> ReadView reviews = Inr (if reviews = [] then NoReviewsYet else Groups gs)
           \<and> map fst gs = filter (\<lambda>k. \<exists>r \<in> set reviews. rsection r = k)
                            [''growing-instant'', ''planning-wedding'', ''best-shape'']
           \<and> subseq (map fst gs) [''growing-instant'', ''planning-wedding'', ''best-shape'']
           \<and> (\<forall>r \<in> set reviews. rsection r \<notin> set SECTION_KEYS \<longrightarrow>
                 (\<exists>xs. g (rsection r) = Some xs \<and> r \<in> set xs)
                 \<and> r \<notin> set (concat (map snd gs)))"
proof -
  let ?g = "\<lambda>k. if filter (\<lambda>r. rsection r = k) reviews = [] then None
                 else Some (filter (\<lambda>r. rsection r = k) reviews)"
  let ?shown = "filter (\<lambda>k. filter (\<lambda>r. rsection r = k) reviews \<noteq> []) SECTION_KEYS"
  let ?gs = "map (\<lambda>k. (k, filter (\<lambda>r. rsection r = k) reviews)) ?shown"
  have g: "groupedBySection reviews = Inr ?g"
    by (rule groupedBySection_plain [OF assms])
  have v: "ReadView reviews = Inr (if reviews = [] then NoReviewsYet else Groups ?gs)"
    by (rule ReadView_plain [OF assms])
  have keys: "?shown = filter (\<lambda>k. \<exists>r \<in> set reviews. rsection r = k)
                         [''growing-instant'', ''planning-wedding'', ''best-shape'']"
    unfolding SECTION_KEYS_def by (rule filter_cong) (auto simp: filter_empty_conv)
  have "map fst ?gs = ?shown"
    by (simp add: comp_def)
  with keys have fst_eq: "map fst ?gs = filter (\<lambda>k. \<exists>r \<in> set reviews. rsection r = k)
                                          [''growing-instant'', ''planning-wedding'', ''best-shape'']"
    by simp
  have "subseq (filter (\<lambda>k. \<exists>r \<in> set reviews. rsection r = k)
                  [''growing-instant'', ''planning-wedding'', ''best-shape''])
               [''growing-instant'', ''planning-wedding'', ''best-shape'']"
    by (rule subseq_filter_left)
  with fst_eq have order: "subseq (map fst ?gs) [''growing-instant'', ''planning-wedding'', ''best-shape'']"
    by simp
  have hidden: "\<forall>r \<in> set reviews. rsection r \<notin> set SECTION_KEYS \<longrightarrow>
                 (\<exists>xs. ?g (rsection r) = Some xs \<and> r \<in> set xs)
                 \<and> r \<notin> set (concat (map snd ?gs))"
    by (auto simp: filter_empty_conv)
  from g v fst_eq order hidden show ?thesis by blast
qed

theorem C10_unlisted_section_witness:
  "Object_prototype ''best-shape'' = None \<and> Object_prototype ''misc'' = None
   \<and> Object_prototype ''growing-instant'' = None
   \<and> ''misc'' \<notin> set SECTION_KEYS
   \<and> (\<exists>g gs. groupedBySection [\<lparr>rid = ''a'', title = ''T1'', content = ''C1'', rsection = ''best-shape'', createdAt = 300\<rparr>,
                 \<lparr>rid = ''b'', title = ''T2'', content = ''C2'', rsection = ''misc'', createdAt = 200\<rparr>,
                 \<lparr>rid = ''c'', title = ''T3'', content = ''C3'', rsection = ''growing-instant'', createdAt = 100\<rparr>] = Inr g
          \<and> ReadView [\<lparr>rid = ''a'', title = ''T1'', content = ''C1'', rsection = ''best-shape'', createdAt = 300\<rparr>,
                 \<lparr>rid = ''b'', title = ''T2'', content = ''C2'', rsection = ''misc'', createdAt = 200\<rparr>,
                 \<lparr>rid = ''c'', title = ''T3'', content = ''C3'', rsection = ''growing-instant'', createdAt = 100\<rparr>] = Inr (Groups gs)
          \<and> map fst gs = [''growing-instant'', ''best-shape'']
          \<and> (\<exists>xs. g ''misc'' = Some xs
                \<and> \<lparr>rid = ''b'', title = ''T2'', content = ''C2'', rsection = ''misc'', createdAt = 200\<rparr> \<in> set xs)
          \<and> \<lparr>rid = ''b'', title = ''T2'', content = ''C2'', rsection = ''misc'', createdAt = 200\<rparr> \<notin> set (concat (map snd gs)))"
proof -
  define rs where "rs = [\<lparr>rid = ''a'', title = ''T1'', content = ''C1'', rsection = ''best-shape'', createdAt = 300\<rparr>,
              \<lparr>rid = ''b'', title = ''T2'', content = ''C2'', rsection = ''misc'', createdAt = 200\<rparr>,
              \<lparr>rid = ''c'', title = ''T3'', content = ''C3'', rsection = ''growing-instant'', createdAt = 100\<rparr>]"
  define m where "m = \<lparr>rid = ''b'', title = ''T2'', content = ''C2'', rsection = ''misc'', createdAt = 200\<rparr>"
  have p1: "Object_prototype ''best-shape'' = None"
    and p2: "Object_prototype ''misc'' = None"
    and p3: "Object_prototype ''growing-instant'' = None"
    by (simp_all add: Object_prototype_def)
  have nk: "''misc'' \<notin> set SECTION_KEYS"
    by (simp add: SECTION_KEYS_def)
  have h: "\<forall>r \<in> set rs. Object_prototype (rsection r) = None"
    using p1 p2 p3 by (simp add: rs_def)
  have ne: "rs \<noteq> []"
    by (simp add: rs_def)
  have f: "filter (\<lambda>k. \<exists>r \<in> set rs. rsection r = k)
             [''growing-instant'', ''planning-wedding'', ''best-shape'']
           = [''growing-instant'', ''best-shape'']"
    by (simp add: rs_def)
  have m_in: "m \<in> set rs" and m_sec: "rsection m = ''misc''"
    by (simp_all add: rs_def m_def)
  from C10_unlisted_section [OF h] obtain g gs where
    g: "groupedBySection rs = Inr g"
    and v: "ReadView rs = Inr (if rs = [] then NoReviewsYet else Groups gs)"
    and keys: "map fst gs = filter (\<lambda>k. \<exists>r \<in> set rs. rsection r = k)
                              [''growing-instant'', ''planning-wedding'', ''best-shape'']"
    and hid: "\<forall>r \<in> set rs. rsection r \<notin> set SECTION_KEYS \<longrightarrow>
                 (\<exists>xs. g (rsection r) = Some xs \<and> r \<in> set xs)
                 \<and> r \<notin> set (concat (map snd gs))"
    by (elim exE conjE) (rule that)
  have v': "ReadView rs = Inr (Groups gs)"
    using v ne by simp
  have keys': "map fst gs = [''growing-instant'', ''best-shape'']"
    using keys f by simp
  have "rsection m \<notin> set SECTION_KEYS"
    using nk m_sec by simp
  with hid m_in have "(\<exists>xs. g (rsection m) = Some xs \<and> m \<in> set xs)
                 \<and> m \<notin> set (concat (map snd gs))"
    by blast
  then have hid1: "\<exists>xs. g ''misc'' = Some xs \<and> m \<in> set xs"
    and hid2: "m \<notin> set (concat (map snd gs))"
    using m_sec by simp_all
  have "\<exists>g gs. groupedBySection rs = Inr g
          \<and> ReadView rs = Inr (Groups gs)
          \<and> map fst gs = [''growing-instant'', ''best-shape'']
          \<and> (\<exists>xs. g ''misc'' = Some xs \<and> m \<in> set xs)
          \<and> m \<notin> set (concat (map snd gs))"
    using g v' keys' hid1 hid2 by (intro exI [of _ g] exI [of _ gs] conjI)
  then show ?thesis
    using p1 p2 p3 nk unfolding rs_def m_def by (intro conjI)
qed

lemma js_filter_loop_eq: "js_filter_loop f xs out = out @ filter f xs"
  by (induction xs arbitrary: out) simp_all

lemma js_filter_eq: "js_filter f xs = filter f xs"
  by (simp add: js_filter_def js_filter_loop_eq)

text \<open>
  C2. Filter mode: for every list of reviews and every selected section id, the filtered
  list is exactly the input elements whose section equals that id, in their original
  relative order: it is a subsequence of the input, all its elements have that section,
  and every input element with that section occurs in it as often as in the input. With no
  matching review the result is the empty list, an ordinary value.
\<close>

theorem C2_filter_mode:
  "sectionReviews reviews a = filter (\<lambda>r. rsection r = a) reviews
   \<and> subseq (sectionReviews reviews a) reviews
   \<and> (\<forall>r \<in> set (sectionReviews reviews a). rsection r = a)
   \<and> (\<forall>r. rsection r = a \<longrightarrow> count_list (sectionReviews reviews a) r = count_list reviews r)
   \<and> ((\<forall>r \<in> set reviews. rsection r \<noteq> a) \<longrightarrow> sectionReviews reviews a = [])"
proof -
  have eq: "sectionReviews reviews a = filter (\<lambda>r. rsection r = a) reviews"
    by (simp add: sectionReviews_def js_filter_eq)
  have cnt: "\<forall>r. rsection r = a \<longrightarrow>
               count_list (filter (\<lambda>r. rsection r = a) reviews) r = count_list reviews r"
    by (induction reviews) auto
  show ?thesis
    unfolding eq using cnt by (auto simp: filter_empty_conv)
qed

theorem C2_filter_mode_witness:
  "sectionReviews
     [\<lparr>rid = ''a'', title = ''T1'', content = ''C1'', rsection = ''growing-instant'', createdAt = 200\<rparr>,
      \<lparr>rid = ''b'', title = ''T2'', content = ''C2'', rsection = ''best-shape'', createdAt = 150\<rparr>,
      \<lparr>rid = ''c'', title = ''T3'', content = ''C3'', rsection = ''growing-instant'', createdAt = 100\<rparr>]
     ''growing-instant''
   = [\<lparr>rid = ''a'', title = ''T1'', content = ''C1'', rsection = ''growing-instant'', createdAt = 200\<rparr>,
      \<lparr>rid = ''c'', title = ''T3'', content = ''C3'', rsection = ''growing-instant'', createdAt = 100\<rparr>]
   \<and> sectionReviews
       [\<lparr>rid = ''a'', title = ''T1'', content = ''C1'', rsection = ''growing-instant'', createdAt = 200\<rparr>,
        \<lparr>rid = ''b'', title = ''T2'', content = ''C2'', rsection = ''best-shape'', createdAt = 150\<rparr>,
        \<lparr>rid = ''c'', title = ''T3'', content = ''C3'', rsection = ''growing-instant'', createdAt = 100\<rparr>]
       ''planning-wedding'' = []"
proof -
  let ?rs = "[\<lparr>rid = ''a'', title = ''T1'', content = ''C1'', rsection = ''growing-instant'', createdAt = 200\<rparr>,
              \<lparr>rid = ''b'', title = ''T2'', content = ''C2'', rsection = ''best-shape'', createdAt = 150\<rparr>,
              \<lparr>rid = ''c'', title = ''T3'', content = ''C3'', rsection = ''growing-instant'', createdAt = 100\<rparr>]"
  have h: "\<forall>r \<in> set ?rs. rsection r \<noteq> ''planning-wedding''"
    by simp
  have a: "sectionReviews ?rs ''growing-instant'' = filter (\<lambda>r. rsection r = ''growing-instant'') ?rs"
    using C2_filter_mode [of ?rs "''growing-instant''"] by blast
  have b: "sectionReviews ?rs ''planning-wedding'' = []"
    using C2_filter_mode [of ?rs "''planning-wedding''"] h by blast
  from a have a': "sectionReviews ?rs ''growing-instant''
      = [\<lparr>rid = ''a'', title = ''T1'', content = ''C1'', rsection = ''growing-instant'', createdAt = 200\<rparr>,
         \<lparr>rid = ''c'', title = ''T3'', content = ''C3'', rsection = ''growing-instant'', createdAt = 100\<rparr>]"
    by simp
  from a' b show ?thesis by blast
qed

subsection \<open>Edit-State Controller\<close>

lemma filter_rid_le_one:
  "distinct (map rid rs) \<Longrightarrow> length (filter (\<lambda>r. rid r = i) rs) \<le> 1"
proof (induction rs)
  case Nil
  then show ?case by simp
next
  case (Cons r rs)
  show ?case
  proof (cases "rid r = i")
    case True
    then have "i \<notin> rid ` set rs" using Cons.prems by auto
    then have "filter (\<lambda>r. rid r = i) rs = []" by (auto simp: filter_empty_conv)
    with True show ?thesis by simp
  next
    case False
    with Cons show ?thesis by simp
  qed
qed

text \<open>
  C4. Last click wins. For reviews \<open>x\<close> and \<open>y\<close> with distinct ids, in both layouts:
  while \<open>x\<close> is being edited the begin-edit control of \<open>y\<close> is rendered, and after
  begin-edit of \<open>x\<close> then of \<open>y\<close> the controller is in Editing(y) and not in
  Editing(x). In every controller state, among reviews with pairwise distinct ids at most
  one is in edit state.
\<close>

theorem C4_last_click_wins:
  "(rid x \<noteq> rid y \<longrightarrow>
      ReviewEntry_event y ClickEdit (onEdit x a, ey) = Some ([], onEdit y (onEdit x a), ey)
      \<and> editingId (onEdit y (onEdit x a)) = Some (rid y)
      \<and> editingId (onEdit y (onEdit x a)) \<noteq> Some (rid x)
      \<and> isEditing (onEdit y (onEdit x a)) y \<and> \<not> isEditing (onEdit y (onEdit x a)) x
      \<and> ReviewItem_event y ClickEdit (onEditItem x d, ey) = Some ([], onEditItem y (onEditItem x d), ey)
      \<and> editingReview (onEditItem y (onEditItem x d)) = Some y
      \<and> isEditingItem (onEditItem y (onEditItem x d)) y
      \<and> \<not> isEditingItem (onEditItem y (onEditItem x d)) x)
   \<and> (distinct (map rid reviews) \<longrightarrow>
        length (filter (isEditing a) reviews) \<le> 1
        \<and> length (filter (isEditingItem d) reviews) \<le> 1)"
proof -
  have one: "distinct (map rid reviews) \<longrightarrow> length (filter (isEditing a) reviews) \<le> 1"
  proof (cases "editingId a")
    case None
    then show ?thesis by (simp add: isEditing_def)
  next
    case (Some i)
    then have "filter (isEditing a) reviews = filter (\<lambda>r. rid r = i) reviews"
      by (auto simp: isEditing_def intro: filter_cong)
    then show ?thesis using filter_rid_le_one [of reviews i] by auto
  qed
  have two: "distinct (map rid reviews) \<longrightarrow> length (filter (isEditingItem d) reviews) \<le> 1"
  proof (cases "editingReview d")
    case None
    then show ?thesis by (simp add: isEditingItem_def)
  next
    case (Some er)
    then have "filter (isEditingItem d) reviews = filter (\<lambda>r. rid r = rid er) reviews"
      by (auto simp: isEditingItem_def intro: filter_cong)
    then show ?thesis using filter_rid_le_one [of reviews "rid er"] by auto
  qed
  have click: "rid x \<noteq> rid y \<longrightarrow>
      ReviewEntry_event y ClickEdit (onEdit x a, ey) = Some ([], onEdit y (onEdit x a), ey)
      \<and> ReviewItem_event y ClickEdit (onEditItem x d, ey) = Some ([], onEditItem y (onEditItem x d), ey)"
    by (simp add: ReviewEntry_event_def ReviewItem_event_def isEditing_def isEditingItem_def
        onEdit_def onEditItem_def)
  have st: "rid x \<noteq> rid y \<longrightarrow>
      editingId (onEdit y (onEdit x a)) = Some (rid y)
      \<and> editingId (onEdit y (onEdit x a)) \<noteq> Some (rid x)
      \<and> isEditing (onEdit y (onEdit x a)) y \<and> \<not> isEditing (onEdit y (onEdit x a)) x
      \<and> editingReview (onEditItem y (onEditItem x d)) = Some y
      \<and> isEditingItem (onEditItem y (onEditItem x d)) y
      \<and> \<not> isEditingItem (onEditItem y (onEditItem x d)) x"
    by (auto simp: isEditing_def isEditingItem_def onEdit_def onEditItem_def)
  from one two click st show ?thesis by blast
qed

theorem C4_last_click_wins_witness:
  "rid \<lparr>rid = ''a'', title = ''T1'', content = ''C1'', rsection = ''best-shape'', createdAt = 200\<rparr>
     \<noteq> rid \<lparr>rid = ''b'', title = ''T2'', content = ''C2'', rsection = ''best-shape'', createdAt = 100\<rparr>
   \<and> editingId
        (onEdit \<lparr>rid = ''b'', title = ''T2'', content = ''C2'', rsection = ''best-shape'', createdAt = 100\<rparr>
           (onEdit \<lparr>rid = ''a'', title = ''T1'', content = ''C1'', rsection = ''best-shape'', createdAt = 200\<rparr>
              \<lparr>view = ReadMode, editingId = None\<rparr>)) = Some ''b''
   \<and> distinct (map rid
         [\<lparr>rid = ''a'', title = ''T1'', content = ''C1'', rsection = ''best-shape'', createdAt = 200\<rparr>,
          \<lparr>rid = ''b'', title = ''T2'', content = ''C2'', rsection = ''best-shape'', createdAt = 100\<rparr>])
   \<and> length (filter (isEditing \<lparr>view = ReadMode, editingId = None\<rparr>)
         [\<lparr>rid = ''a'', title = ''T1'', content = ''C1'', rsection = ''best-shape'', createdAt = 200\<rparr>,
          \<lparr>rid = ''b'', title = ''T2'', content = ''C2'', rsection = ''best-shape'', createdAt = 100\<rparr>]) \<le> 1"
  using C4_last_click_wins
    [of "\<lparr>rid = ''a'', title = ''T1'', content = ''C1'', rsection = ''best-shape'', createdAt = 200\<rparr>"
        "\<lparr>rid = ''b'', title = ''T2'', content = ''C2'', rsection = ''best-shape'', createdAt = 100\<rparr>"
        "\<lparr>view = ReadMode, editingId = None\<rparr>"
        "\<lparr>editTitle = ''T2'', editContent = ''C2''\<rparr>"
        "\<lparr>activeSection = ''best-shape'', editingReview = None\<rparr>"
        "[\<lparr>rid = ''a'', title = ''T1'', content = ''C1'', rsection = ''best-shape'', createdAt = 200\<rparr>,
          \<lparr>rid = ''b'', title = ''T2'', content = ''C2'', rsection = ''best-shape'', createdAt = 100\<rparr>]"]
  by simp

text \<open>
  C5. Commit while a review is being edited, in both layouts. With title and content both
  non-empty after trimming, the handler issues exactly one update of that review's id whose
  attributes are the trimmed title and the trimmed content and nothing else, and the
  controller goes to Idle; on any store, that write leaves every other entity as it was and
  changes only the title and the content of the edited one. With either trimmed field empty
  no write is issued and the state, Editing(id), is unchanged.
\<close>

theorem C5_commit:
  assumes "isEditing a r" and "isEditingItem d r"
  shows "(trim (editTitle e) \<noteq> [] \<and> trim (editContent e) \<noteq> [] \<longrightarrow>
            (\<exists>p. p = \<lparr> p_title = Some (trim (editTitle e)), p_content = Some (trim (editContent e)),
                         p_section = None, p_createdAt = None \<rparr>
                \<and> ReviewEntry_handleSave r (a, e) = ([Update (rid r) p], a\<lparr>editingId := None\<rparr>, e)
                \<and> ReviewItem_handleSave r (d, e) = ([Update (rid r) p], d\<lparr>editingReview := None\<rparr>, e)
                \<and> (\<forall>store j. j \<noteq> rid r \<longrightarrow> transact [Update (rid r) p] store j = store j)
                \<and> (\<forall>store ent. store (rid r) = Some ent \<longrightarrow>
                      transact [Update (rid r) p] store (rid r)
                        = Some (ent\<lparr> p_title := Some (trim (editTitle e)),
                                     p_content := Some (trim (editContent e)) \<rparr>))))
         \<and> (trim (editTitle e) = [] \<or> trim (editContent e) = [] \<longrightarrow>
              ReviewEntry_handleSave r (a, e) = ([], a, e) \<and> editingId a = Some (rid r)
              \<and> ReviewItem_handleSave r (d, e) = ([], d, e) \<and> isEditingItem d r)"
proof -
  let ?p = "\<lparr> p_title = Some (trim (editTitle e)), p_content = Some (trim (editContent e)),
               p_section = None, p_createdAt = None \<rparr>"
  have others: "\<forall>store j. j \<noteq> rid r \<longrightarrow> transact [Update (rid r) ?p] store j = store j"
    by simp
  have same: "\<forall>store ent. store (rid r) = Some ent \<longrightarrow>
                transact [Update (rid r) ?p] store (rid r)
                  = Some (ent\<lparr> p_title := Some (trim (editTitle e)),
                               p_content := Some (trim (editContent e)) \<rparr>)"
    by (simp add: merge_patch_def)
  have valid1: "trim (editTitle e) \<noteq> [] \<and> trim (editContent e) \<noteq> [] \<longrightarrow>
      ReviewEntry_handleSave r (a, e) = ([Update (rid r) ?p], a\<lparr>editingId := None\<rparr>, e)"
    by (simp add: ReviewEntry_handleSave_def onClose_def)
  have valid2: "trim (editTitle e) \<noteq> [] \<and> trim (editContent e) \<noteq> [] \<longrightarrow>
      ReviewItem_handleSave r (d, e) = ([Update (rid r) ?p], d\<lparr>editingReview := None\<rparr>, e)"
    by (simp add: ReviewItem_handleSave_def onSaveEdit_def)
  have invalid: "trim (editTitle e) = [] \<or> trim (editContent e) = [] \<longrightarrow>
      ReviewEntry_handleSave r (a, e) = ([], a, e) \<and> ReviewItem_handleSave r (d, e) = ([], d, e)"
    by (auto simp: ReviewEntry_handleSave_def ReviewItem_handleSave_def)
  have ed: "editingId a = Some (rid r)"
    using assms(1) by (simp add: isEditing_def)
  from others same valid1 valid2 invalid ed assms(2) show ?thesis by blast
qed

theorem C5_commit_witness:
  "isEditing \<lparr>view = ReadMode, editingId = Some ''a''\<rparr>
     \<lparr>rid = ''a'', title = ''T1'', content = ''C1'', rsection = ''best-shape'', createdAt = 200\<rparr>
   \<and> isEditingItem
       \<lparr>activeSection = ''best-shape'',
        editingReview = Some \<lparr>rid = ''a'', title = ''T1'', content = ''C1'', rsection = ''best-shape'', createdAt = 200\<rparr>\<rparr>
       \<lparr>rid = ''a'', title = ''T1'', content = ''C1'', rsection = ''best-shape'', createdAt = 200\<rparr>
   \<and> ReviewEntry_handleSave
       \<lparr>rid = ''a'', title = ''T1'', content = ''C1'', rsection = ''best-shape'', createdAt = 200\<rparr>
       (\<lparr>view = ReadMode, editingId = Some ''a''\<rparr>, \<lparr>editTitle = '' New title '', editContent = ''New text''\<rparr>)
     = ([Update ''a'' \<lparr>p_title = Some ''New title'', p_content = Some ''New text'',
                       p_section = None, p_createdAt = None\<rparr>],
        \<lparr>view = ReadMode, editingId = None\<rparr>,
        \<lparr>editTitle = '' New title '', editContent = ''New text''\<rparr>)
   \<and> ReviewEntry_handleSave
       \<lparr>rid = ''a'', title = ''T1'', content = ''C1'', rsection = ''best-shape'', createdAt = 200\<rparr>
       (\<lparr>view = ReadMode, editingId = Some ''a''\<rparr>, \<lparr>editTitle = ''  '', editContent = ''New text''\<rparr>)
     = ([], \<lparr>view = ReadMode, editingId = Some ''a''\<rparr>, \<lparr>editTitle = ''  '', editContent = ''New text''\<rparr>)"
proof -
  let ?r = "\<lparr>rid = ''a'', title = ''T1'', content = ''C1'', rsection = ''best-shape'', createdAt = 200\<rparr>"
  let ?a = "\<lparr>view = ReadMode, editingId = Some ''a''\<rparr>"
  let ?d = "\<lparr>activeSection = ''best-shape'', editingReview = Some ?r\<rparr>"
  have h1: "isEditing ?a ?r" by (simp add: isEditing_def)
  have h2: "isEditingItem ?d ?r" by (simp add: isEditingItem_def)
  have t1: "trim '' New title '' = ''New title''" and t2: "trim ''New text'' = ''New text''"
    and t3: "trim ''  '' = []"
    by (simp_all add: trim_def is_whitespace_def)
  have good: "ReviewEntry_handleSave ?r (?a, \<lparr>editTitle = '' New title '', editContent = ''New text''\<rparr>)
     = ([Update ''a'' \<lparr>p_title = Some ''New title'', p_content = Some ''New text'',
                       p_section = None, p_createdAt = None\<rparr>],
        \<lparr>view = ReadMode, editingId = None\<rparr>,
        \<lparr>editTitle = '' New title '', editContent = ''New text''\<rparr>)"
    using C5_commit [OF h1 h2, of "\<lparr>editTitle = '' New title '', editContent = ''New text''\<rparr>"]
    by (simp add: t1 t2)
  have bad: "ReviewEntry_handleSave ?r (?a, \<lparr>editTitle = ''  '', editContent = ''New text''\<rparr>)
     = ([], ?a, \<lparr>editTitle = ''  '', editContent = ''New text''\<rparr>)"
    using C5_commit [OF h1 h2, of "\<lparr>editTitle = ''  '', editContent = ''New text''\<rparr>"]
    by (simp add: t3)
  from h1 h2 good bad show ?thesis by blast
qed

lemma ReviewEntry_handleDelete_closes:
  "ReviewEntry_handleDelete r (a, e) = ([Delete (rid r)], a\<lparr>editingId := None\<rparr>, e)"
  by (simp add: ReviewEntry_handleDelete_def onClose_def)

lemma ReviewEntry_delete_goes_idle:
  "isEditing a r \<Longrightarrow>
     ReviewEntry_event r ClickDelete (a, e) = Some ([Delete (rid r)], a\<lparr>editingId := None\<rparr>, e)
     \<and> \<not> isEditing (a\<lparr>editingId := None\<rparr>) r"
  by (simp add: ReviewEntry_event_def ReviewEntry_handleDelete_closes isEditing_def)

lemma ReviewItem_handleDelete_keeps_state:
  "ReviewItem_handleDelete r (d, e) = ([Delete (rid r)], d, e)"
  by (simp add: ReviewItem_handleDelete_def)

lemma ReviewItem_handleDelete_stays_editing:
  "isEditingItem d r \<Longrightarrow>
     isEditingItem (fst (snd (ReviewItem_handleDelete r (d, e)))) r
     \<and> editingReview (fst (snd (ReviewItem_handleDelete r (d, e)))) \<noteq> None"
  by (auto simp: ReviewItem_handleDelete_keeps_state isEditingItem_def split: option.splits)

lemma ReviewItem_delete_not_rendered:
  "isEditingItem d r \<Longrightarrow> ReviewItem_event r ClickDelete (d, e) = None"
  by (simp add: ReviewItem_event_def)


text \<open>
  C8 as stated fails: cancel does not discard the edit buffer. On a mounted entry, begin
  edit, type a title, cancel, begin edit again: the form shows the typed title, not the
  review's persisted one.
\<close>

theorem C8_cancel_counterexample:
  "ReviewEntry_run
     \<lparr>rid = ''a'', title = ''T1'', content = ''C1'', rsection = ''best-shape'', createdAt = 200\<rparr>
     [ClickEdit, ChangeTitle ''draft'', ClickCancel, ClickEdit]
     ([], \<lparr>view = ReadMode, editingId = None\<rparr>,
      ReviewEntry_mount
        \<lparr>rid = ''a'', title = ''T1'', content = ''C1'', rsection = ''best-shape'', createdAt = 200\<rparr>)
   = Some ([], \<lparr>view = ReadMode, editingId = Some ''a''\<rparr>,
           \<lparr>editTitle = ''draft'', editContent = ''C1''\<rparr>)
   \<and> ReviewEntry_view
       \<lparr>rid = ''a'', title = ''T1'', content = ''C1'', rsection = ''best-shape'', createdAt = 200\<rparr>
       \<lparr>view = ReadMode, editingId = Some ''a''\<rparr>
       \<lparr>editTitle = ''draft'', editContent = ''C1''\<rparr>
     = EditForm ''draft'' ''C1''
   \<and> ''draft'' \<noteq> title
       \<lparr>rid = ''a'', title = ''T1'', content = ''C1'', rsection = ''best-shape'', createdAt = 200\<rparr>"
  by (simp add: ReviewEntry_event_def ReviewEntry_mount_def ReviewEntry_view_def isEditing_def
      onEdit_def onClose_def)

text \<open>
  C8, amended. In both layouts, cancel on the review being edited issues no write, returns
  the controller to Idle and leaves the item's local edit buffer as it is; begin-edit does
  not touch the buffer either, so a subsequent begin-edit on the still mounted item shows
  the buffer as it was left. The buffer is seeded from the review's title and content when
  the item is mounted.
\<close>

theorem C8_cancel:
  "ReviewEntry_mount r = \<lparr>editTitle = title r, editContent = content r\<rparr>
   \<and> (isEditing a r \<longrightarrow>
        ReviewEntry_event r ClickCancel (a, e) = Some ([], a\<lparr>editingId := None\<rparr>, e)
        \<and> ReviewEntry_event r ClickEdit (a\<lparr>editingId := None\<rparr>, e)
            = Some ([], a\<lparr>editingId := Some (rid r)\<rparr>, e)
        \<and> ReviewEntry_view r (a\<lparr>editingId := Some (rid r)\<rparr>) e
            = EditForm (editTitle e) (editContent e))
   \<and> (isEditingItem d r \<longrightarrow>
        ReviewItem_event r ClickCancel (d, e) = Some ([], d\<lparr>editingReview := None\<rparr>, e)
        \<and> ReviewItem_event r ClickEdit (d\<lparr>editingReview := None\<rparr>, e)
            = Some ([], d\<lparr>editingReview := Some r\<rparr>, e)
        \<and> ReviewItem_view r (d\<lparr>editingReview := Some r\<rparr>) e
            = EditForm (editTitle e) (editContent e))"
  by (simp add: ReviewEntry_event_def ReviewItem_event_def ReviewEntry_mount_def
      ReviewEntry_view_def ReviewItem_view_def isEditing_def isEditingItem_def
      onEdit_def onClose_def onEditItem_def onCancelEdit_def)

theorem C8_cancel_witness:
  "isEditing \<lparr>view = ReadMode, editingId = Some ''a''\<rparr>
     \<lparr>rid = ''a'', title = ''T1'', content = ''C1'', rsection = ''best-shape'', createdAt = 200\<rparr>
   \<and> ReviewEntry_event
       \<lparr>rid = ''a'', title = ''T1'', content = ''C1'', rsection = ''best-shape'', createdAt = 200\<rparr>
       ClickCancel
       (\<lparr>view = ReadMode, editingId = Some ''a''\<rparr>, \<lparr>editTitle = ''draft'', editContent = ''C1''\<rparr>)
     = Some ([], \<lparr>view = ReadMode, editingId = None\<rparr>, \<lparr>editTitle = ''draft'', editContent = ''C1''\<rparr>)
   \<and> isEditingItem
       \<lparr>activeSection = ''best-shape'',
        editingReview = Some \<lparr>rid = ''a'', title = ''T1'', content = ''C1'', rsection = ''best-shape'', createdAt = 200\<rparr>\<rparr>
       \<lparr>rid = ''a'', title = ''T1'', content = ''C1'', rsection = ''best-shape'', createdAt = 200\<rparr>
   \<and> ReviewItem_event
       \<lparr>rid = ''a'', title = ''T1'', content = ''C1'', rsection = ''best-shape'', createdAt = 200\<rparr>
       ClickCancel
       (\<lparr>activeSection = ''best-shape'',
         editingReview = Some \<lparr>rid = ''a'', title = ''T1'', content = ''C1'', rsection = ''best-shape'', createdAt = 200\<rparr>\<rparr>,
        \<lparr>editTitle = ''draft'', editContent = ''C1''\<rparr>)
     = Some ([], \<lparr>activeSection = ''best-shape'', editingReview = None\<rparr>,
             \<lparr>editTitle = ''draft'', editContent = ''C1''\<rparr>)"
proof -
  let ?r = "\<lparr>rid = ''a'', title = ''T1'', content = ''C1'', rsection = ''best-shape'', createdAt = 200\<rparr>"
  let ?a = "\<lparr>view = ReadMode, editingId = Some ''a''\<rparr>"
  let ?d = "\<lparr>activeSection = ''best-shape'', editingReview = Some ?r\<rparr>"
  let ?e = "\<lparr>editTitle = ''draft'', editContent = ''C1''\<rparr>"
  have h1: "isEditing ?a ?r" by (simp add: isEditing_def)
  have h2: "isEditingItem ?d ?r" by (simp add: isEditingItem_def)
  have c1: "ReviewEntry_event ?r ClickCancel (?a, ?e)
              = Some ([], \<lparr>view = ReadMode, editingId = None\<rparr>, ?e)"
    using C8_cancel [of ?r ?a ?e ?d] h1 by simp
  have c2: "ReviewItem_event ?r ClickCancel (?d, ?e)
              = Some ([], \<lparr>activeSection = ''best-shape'', editingReview = None\<rparr>, ?e)"
    using C8_cancel [of ?r ?a ?e ?d] h2 by simp
  from h1 c1 h2 c2 show ?thesis by blast
qed

subsection \<open>Entry Composer\<close>

text \<open>
  C3. Successful submit. In \<open>WriteView\<close>, with a section selected and title and
  content both non-empty after trimming, submit issues exactly one write: an update of the
  fresh id carrying the trimmed title, the trimmed content, the selected section and the
  current time as \<open>createdAt\<close>; then title, content and selected section are cleared,
  the step is back to the section step, and \<open>App\<close> is told to show the read view. The
  card of the dashboard issues the same write with the active tab as section and clears its
  two fields, title and content.
\<close>

theorem C3_successful_submit:
  "(selectedSection w = Some sec \<and> sec \<noteq> [] \<and> trim (w_title w) \<noteq> [] \<and> trim (w_content w) \<noteq> [] \<longrightarrow>
      WriteView_handleSubmit env (a, w)
        = ([Update (fresh_id env)
              \<lparr> p_title = Some (trim (w_title w)), p_content = Some (trim (w_content w)),
                p_section = Some sec, p_createdAt = Some (now env) \<rparr>],
           a\<lparr>view := ReadMode\<rparr>,
           \<lparr>step = SectionStep, selectedSection = None, w_title = [], w_content = []\<rparr>))
   \<and> (trim (a_title s) \<noteq> [] \<and> trim (a_content s) \<noteq> [] \<longrightarrow>
      AddReviewCard_handleSubmit env tab s
        = ([Update (fresh_id env)
              \<lparr> p_title = Some (trim (a_title s)), p_content = Some (trim (a_content s)),
                p_section = Some tab, p_createdAt = Some (now env) \<rparr>],
           \<lparr>a_title = [], a_content = []\<rparr>))"
  by (simp add: WriteView_handleSubmit_def AddReviewCard_handleSubmit_def no_section_def
      onComplete_def)

theorem C3_successful_submit_witness:
  "selectedSection
     \<lparr>step = ContentStep, selectedSection = Some ''best-shape'',
      w_title = '' Week 1 '', w_content = ''Felt strong''\<rparr> = Some ''best-shape''
   \<and> ''best-shape'' \<noteq> []
   \<and> trim '' Week 1 '' \<noteq> [] \<and> trim ''Felt strong'' \<noteq> []
   \<and> WriteView_handleSubmit \<lparr>fresh_id = ''n1'', now = 1000\<rparr>
       (\<lparr>view = WriteMode, editingId = None\<rparr>,
        \<lparr>step = ContentStep, selectedSection = Some ''best-shape'',
         w_title = '' Week 1 '', w_content = ''Felt strong''\<rparr>)
     = ([Update ''n1'' \<lparr>p_title = Some ''Week 1'', p_content = Some ''Felt strong'',
                        p_section = Some ''best-shape'', p_createdAt = Some 1000\<rparr>],
        \<lparr>view = ReadMode, editingId = None\<rparr>,
        \<lparr>step = SectionStep, selectedSection = None, w_title = [], w_content = []\<rparr>)
   \<and> AddReviewCard_handleSubmit \<lparr>fresh_id = ''n1'', now = 1000\<rparr> ''best-shape''
       \<lparr>a_title = '' Week 1 '', a_content = ''Felt strong''\<rparr>
     = ([Update ''n1'' \<lparr>p_title = Some ''Week 1'', p_content = Some ''Felt strong'',
                        p_section = Some ''best-shape'', p_createdAt = Some 1000\<rparr>],
        \<lparr>a_title = [], a_content = []\<rparr>)"
proof -
  have t1: "trim '' Week 1 '' = ''Week 1''" and t2: "trim ''Felt strong'' = ''Felt strong''"
    by (simp_all add: trim_def is_whitespace_def)
  show ?thesis
    using C3_successful_submit
      [of "\<lparr>step = ContentStep, selectedSection = Some ''best-shape'',
            w_title = '' Week 1 '', w_content = ''Felt strong''\<rparr>"
          "''best-shape''" "\<lparr>fresh_id = ''n1'', now = 1000\<rparr>"
          "\<lparr>view = WriteMode, editingId = None\<rparr>"
          "\<lparr>a_title = '' Week 1 '', a_content = ''Felt strong''\<rparr>" "''best-shape''"]
    by (simp add: t1 t2)
qed

text \<open>
  C7 as stated fails: Back does not reset the title and content buffers. With a title and
  a content entered, Back changes the step only.
\<close>

theorem C7_back_counterexample:
  "WriteView_back
     (setContent ''Felt strong''
        (setTitle ''Week 1'' (WriteView_chooseSection ''best-shape'' WriteView_mount)))
   = \<lparr>step = SectionStep, selectedSection = Some ''best-shape'',
      w_title = ''Week 1'', w_content = ''Felt strong''\<rparr>
   \<and> w_title (WriteView_back
        (setContent ''Felt strong''
           (setTitle ''Week 1'' (WriteView_chooseSection ''best-shape'' WriteView_mount)))) \<noteq> []
   \<and> w_content (WriteView_back
        (setContent ''Felt strong''
           (setTitle ''Week 1'' (WriteView_chooseSection ''best-shape'' WriteView_mount)))) \<noteq> []"
  by (simp add: WriteView_back_def setContent_def setTitle_def WriteView_chooseSection_def
      WriteView_mount_def)

text \<open>
  C7, amended. For every buffered title and content, Back returns the composer to the
  section step and keeps the entered title and content in the local buffers; choosing a
  section afterwards shows the details step with that title and content.
\<close>

theorem C7_back:
  "step (WriteView_back w) = SectionStep
   \<and> w_title (WriteView_back w) = w_title w
   \<and> w_content (WriteView_back w) = w_content w
   \<and> WriteView_back w = w\<lparr>step := SectionStep\<rparr>
   \<and> WriteView_chooseSection sectionId (WriteView_back w)
       = \<lparr>step = ContentStep, selectedSection = Some sectionId,
          w_title = w_title w, w_content = w_content w\<rparr>"
  by (simp add: WriteView_back_def WriteView_chooseSection_def)

text \<open>
  C9. Invalid submit. With a title made of white space only (the empty title included),
  whatever the content, submit issues no write and leaves the whole composer state as it
  was: the step, the selected section and both buffers. The same holds for the card of the
  dashboard.
\<close>

theorem C9_invalid_submit:
  "((\<forall>c \<in> set (w_title w). is_whitespace c) \<longrightarrow>
      WriteView_handleSubmit env (a, w) = ([], a, w))
   \<and> ((\<forall>c \<in> set (a_title s). is_whitespace c) \<longrightarrow>
      AddReviewCard_handleSubmit env sec s = ([], s))"
proof -
  have w: "(\<forall>c \<in> set (w_title w). is_whitespace c) \<longrightarrow> trim (w_title w) = []"
    by (simp add: trim_empty_iff)
  have s: "(\<forall>c \<in> set (a_title s). is_whitespace c) \<longrightarrow> trim (a_title s) = []"
    by (simp add: trim_empty_iff)
  from w s show ?thesis
    by (simp add: WriteView_handleSubmit_def AddReviewCard_handleSubmit_def)
qed

theorem C9_invalid_submit_witness:
  "is_whitespace CHR '' ''
   \<and> WriteView_handleSubmit \<lparr>fresh_id = ''n1'', now = 1000\<rparr>
       (\<lparr>view = WriteMode, editingId = None\<rparr>,
        \<lparr>step = ContentStep, selectedSection = Some ''best-shape'',
         w_title = '' '', w_content = ''Felt strong''\<rparr>)
     = ([], \<lparr>view = WriteMode, editingId = None\<rparr>,
        \<lparr>step = ContentStep, selectedSection = Some ''best-shape'',
         w_title = '' '', w_content = ''Felt strong''\<rparr>)
   \<and> AddReviewCard_handleSubmit \<lparr>fresh_id = ''n1'', now = 1000\<rparr> ''best-shape''
       \<lparr>a_title = '' '', a_content = ''Felt strong''\<rparr>
     = ([], \<lparr>a_title = '' '', a_content = ''Felt strong''\<rparr>)"
proof -
  have ws: "is_whitespace CHR '' ''" by (simp add: is_whitespace_def)
  then have h: "\<forall>c \<in> set '' ''. is_whitespace c" by simp
  have c1: "WriteView_handleSubmit \<lparr>fresh_id = ''n1'', now = 1000\<rparr>
       (\<lparr>view = WriteMode, editingId = None\<rparr>,
        \<lparr>step = ContentStep, selectedSection = Some ''best-shape'',
         w_title = '' '', w_content = ''Felt strong''\<rparr>)
     = ([], \<lparr>view = WriteMode, editingId = None\<rparr>,
        \<lparr>step = ContentStep, selectedSection = Some ''best-shape'',
         w_title = '' '', w_content = ''Felt strong''\<rparr>)"
    using C9_invalid_submit
      [of "\<lparr>step = ContentStep, selectedSection = Some ''best-shape'',
            w_title = '' '', w_content = ''Felt strong''\<rparr>"
          "\<lparr>fresh_id = ''n1'', now = 1000\<rparr>" "\<lparr>view = WriteMode, editingId = None\<rparr>"
          "\<lparr>a_title = '' '', a_content = ''Felt strong''\<rparr>" "''best-shape''"] h
    by simp
  have c2: "AddReviewCard_handleSubmit \<lparr>fresh_id = ''n1'', now = 1000\<rparr> ''best-shape''
       \<lparr>a_title = '' '', a_content = ''Felt strong''\<rparr>
     = ([], \<lparr>a_title = '' '', a_content = ''Felt strong''\<rparr>)"
    using C9_invalid_submit
      [of "\<lparr>step = ContentStep, selectedSection = Some ''best-shape'',
            w_title = '' '', w_content = ''Felt strong''\<rparr>"
          "\<lparr>fresh_id = ''n1'', now = 1000\<rparr>" "\<lparr>view = WriteMode, editingId = None\<rparr>"
          "\<lparr>a_title = '' '', a_content = ''Felt strong''\<rparr>" "''best-shape''"] h
    by simp
  from ws c1 c2 show ?thesis by (intro conjI)
qed

end
